theory Spec2Isabelle
  imports Main
begin

section \<open>The loan application chaincode (main.go)\<close>

text \<open>
  The handler stores, fetches and patches one kind of record in the key-value ledger of
  its host. Every handler function receives the host's stub and the string arguments
  of the invocation and returns Go's pair \<open>([]byte, error)\<close>.

  Conventions of the embedding:
  \<^item> a byte slice is a \<open>string\<close>; a result \<open>([]byte, error)\<close> is \<open>error + bytes option\<close>,
    \<open>Inl e\<close> for a non-nil error, \<open>Inr None\<close> for \<open>nil, nil\<close> and \<open>Inr (Some b)\<close> for
    \<open>b, nil\<close>;
  \<^item> the stub is mutated by the calls, so every handler returns the stub it leaves
    behind next to its result;
  \<^item> the calls to the logger write to the process log only and are left out.
\<close>

subsection \<open>Records\<close>

type_synonym bytes = string

record PersonalInfo =
  Firstname :: string
  Lastname :: string
  DOB :: string
  Email :: string
  Mobile :: string

record FinancialInfo =
  MonthlySalary :: int
  MonthlyRent :: int
  OtherExpenditure :: int
  MonthlyLoanPayment :: int

record LoanApplication =
  ID :: string
  PropertyID :: string
  LandID :: string
  PermitID :: string
  BuyerID :: string
  SalesContractID :: string
  PersonalInfo :: PersonalInfo
  FinancialInfo :: FinancialInfo
  Status :: string
  RequestedAmount :: int
  FairMarketValue :: int
  ApprovedAmount :: int
  ReviewerID :: string
  LastModifiedDate :: string

text \<open>
  The source also declares the shape of a notice, with the tags \<open>type\<close> and
  \<open>description\<close>. No function builds or encodes a value of it.
\<close>

record customEvent =
  Type :: string
  Decription :: string

text \<open>The value of \<open>var loanApplication LoanApplication\<close>: every field zero.\<close>

definition zero_LoanApplication :: LoanApplication where
  "zero_LoanApplication =
     \<lparr>ID = [], PropertyID = [], LandID = [], PermitID = [], BuyerID = [],
      SalesContractID = [],
      PersonalInfo = \<lparr>Firstname = [], Lastname = [], DOB = [], Email = [], Mobile = []\<rparr>,
      FinancialInfo = \<lparr>MonthlySalary = 0, MonthlyRent = 0, OtherExpenditure = 0,
        MonthlyLoanPayment = 0\<rparr>,
      Status = [], RequestedAmount = 0, FairMarketValue = 0, ApprovedAmount = 0,
      ReviewerID = [], LastModifiedDate = []\<rparr>"

subsection \<open>Errors\<close>

text \<open>
  \<open>errors_New s\<close> is Go's \<open>errors.New(s)\<close>. The other constructors are the error kinds
  the specification gives to the collaborators outside main.go: \<open>NotFound\<close> and
  \<open>WriteFailed\<close> for the ledger, \<open>MalformedRecord\<close> for the record codec.
\<close>

datatype error = errors_New string | NotFound | WriteFailed | MalformedRecord

text \<open>
  Modelled from the spec: the text of \<open>err.Error()\<close>. For an error made by
  \<open>errors.New\<close> it is the message; the specification names the kinds of the other
  errors but not their texts, so the text of a kind is its name.
\<close>

fun Error :: "error \<Rightarrow> string" where
  "Error (errors_New s) = s"
| "Error NotFound = ''NotFound''"
| "Error WriteFailed = ''WriteFailed''"
| "Error MalformedRecord = ''MalformedRecord''"

subsection \<open>The ledger gateway\<close>

text \<open>
  The stub holds the ledger's key space, the credential attributes of the caller and
  the events emitted so far. Whether the host refuses a write or an event is the host's
  choice; the two predicates \<open>put_fails\<close> and \<open>event_fails\<close> record it.
\<close>

record ChaincodeStub =
  ledger :: "string \<rightharpoonup> bytes"
  attrs :: "string \<rightharpoonup> bytes"
  events :: "(string \<times> bytes) list"
  put_fails :: "string \<Rightarrow> bytes \<Rightarrow> bool"
  event_fails :: "string \<Rightarrow> bytes \<Rightarrow> bool"

text \<open>
  Modelled from the spec: \<open>stub.GetState\<close>, the ledger's
  \<open>get(key) -> bytes | NotFound\<close> (shim.ChaincodeStubInterface is the host's, not part
  of main.go).
\<close>

definition GetState :: "ChaincodeStub \<Rightarrow> string \<Rightarrow> error + bytes" where
  "GetState stub key = (case ledger stub key of None \<Rightarrow> Inl NotFound | Some v \<Rightarrow> Inr v)"

text \<open>
  Modelled from the spec: \<open>stub.PutState\<close>, the ledger's
  \<open>put(key, value) -> ok | WriteFailed\<close>; a refused write leaves the key space as it was.
\<close>

definition PutState :: "ChaincodeStub \<Rightarrow> string \<Rightarrow> bytes \<Rightarrow> error + ChaincodeStub" where
  "PutState stub key v =
     (if put_fails stub key v then Inl WriteFailed
      else Inr (stub\<lparr>ledger := (ledger stub)(key \<mapsto> v)\<rparr>))"

text \<open>
  Modelled from the spec: \<open>stub.SetEvent\<close>, the ledger's
  \<open>emitEvent(channel, payload) -> ok | WriteFailed\<close>.
\<close>

definition SetEvent :: "ChaincodeStub \<Rightarrow> string \<Rightarrow> bytes \<Rightarrow> error + ChaincodeStub" where
  "SetEvent stub channel payload =
     (if event_fails stub channel payload then Inl WriteFailed
      else Inr (stub\<lparr>events := events stub @ [(channel, payload)]\<rparr>))"

text \<open>
  Modelled from the spec: \<open>stub.ReadCertAttribute\<close>, the ledger's
  \<open>getCredentialAttribute(name) -> bytes | NotFound\<close>.
\<close>

definition ReadCertAttribute :: "ChaincodeStub \<Rightarrow> string \<Rightarrow> error + bytes" where
  "ReadCertAttribute stub attributeName =
     (case attrs stub attributeName of None \<Rightarrow> Inl NotFound | Some v \<Rightarrow> Inr v)"

subsection \<open>The record codec\<close>

text \<open>
  \<open>json.Unmarshal\<close> and \<open>json.Marshal\<close> belong to Go's library. The handler takes them
  as a parameter: \<open>Unmarshal c data v\<close> decodes \<open>data\<close> into the record \<open>v\<close> and returns
  the error (if any) with the record as the call leaves it; \<open>Marshal c v\<close> returns the
  encoding or an error.
\<close>

record json =
  Unmarshal :: "bytes \<Rightarrow> LoanApplication \<Rightarrow> error option \<times> LoanApplication"
  Marshal :: "LoanApplication \<Rightarrow> error + bytes"

subsection \<open>The handler\<close>

type_synonym result = "error + bytes option"

text \<open>\<open>GetCertAttribute\<close>: Go's pair \<open>(string, error)\<close>, the error \<open>None\<close> when nil.\<close>

definition GetCertAttribute :: "ChaincodeStub \<Rightarrow> string \<Rightarrow> string \<times> error option" where
  "GetCertAttribute stub attributeName =
     (case ReadCertAttribute stub attributeName of
        Inl err \<Rightarrow>
          ([], Some (errors_New (''Couldn't get attribute '' @ attributeName
                                  @ ''. Error: '' @ Error err)))
      | Inr attr \<Rightarrow> (attr, None))"

text \<open>
  The two notices. The source builds them as text, apostrophes included:
  \<^verbatim>\<open>"{eventType: 'loanApplicationCreation', description: '" + loanAppID + " Successfully created'}"\<close>
\<close>

definition creationNotice :: "string \<Rightarrow> bytes" where
  "creationNotice loanAppID =
     ''{eventType: 'loanApplicationCreation', description: '' @ [CHR 0x27] @ loanAppID
       @ '' Successfully created'}''"

definition updateNotice :: "string \<Rightarrow> bytes" where
  "updateNotice loanAppID =
     ''{eventType: 'loanApplicationUpdate', description: '' @ [CHR 0x27] @ loanAppID
       @ '' Successfully updated'}''"

text \<open>
  \<open>CreateLoanApplication\<close>. The reads \<open>args[0]\<close> and \<open>args[1]\<close> come after the length
  check, so they are in range.
\<close>

definition CreateLoanApplication :: "ChaincodeStub \<Rightarrow> string list \<Rightarrow> ChaincodeStub \<times> result" where
  "CreateLoanApplication stub args =
     (if length args < 2 then (stub, Inl (errors_New ''Expected at least 2 arguments''))
      else
        let loanAppID = args ! 0; loanAppInput = args ! 1 in
        case PutState stub loanAppID loanAppInput of
          Inl err \<Rightarrow> (stub, Inl err)
        | Inr stub1 \<Rightarrow>
            (case SetEvent stub1 ''evtSender'' (creationNotice loanAppID) of
               Inl err \<Rightarrow> (stub1, Inl err)
             | Inr stub2 \<Rightarrow> (stub2, Inr None)))"

definition GetLoanApplication :: "ChaincodeStub \<Rightarrow> string list \<Rightarrow> ChaincodeStub \<times> result" where
  "GetLoanApplication stub args =
     (if length args < 1 then (stub, Inl (errors_New ''Missing loan application ID''))
      else
        let loanAppId = args ! 0 in
        case GetState stub loanAppId of
          Inl err \<Rightarrow> (stub, Inl err)
        | Inr bytes \<Rightarrow> (stub, Inr (Some bytes)))"

text \<open>
  \<open>UpdateLoanApplication\<close>. Three things of the source are read as follows:
  \<^item> the key passed to \<open>GetState\<close> is spelled \<open>loanAppId\<close>, the variable declared two
    lines above is \<open>loanAppID\<close>; the function has no other variable, so the key is
    \<open>args[0]\<close>;
  \<^item> the record is declared with the type name \<open>loanApplication\<close>; the only record type
    of that name up to case is \<open>LoanApplication\<close>;
  \<^item> the error returned by \<open>json.Unmarshal\<close> is assigned to \<open>err\<close> and overwritten by
    the next assignment without being tested. The model binds it (\<open>uerr\<close>) and, like
    the source, never looks at it.
\<close>

definition UpdateLoanApplication ::
    "json \<Rightarrow> ChaincodeStub \<Rightarrow> string list \<Rightarrow> ChaincodeStub \<times> result" where
  "UpdateLoanApplication c stub args =
     (if length args < 2
      then (stub, Inl (errors_New ''Expected at least 2 arguments for loan application update''))
      else
        let loanAppID = args ! 0; status = args ! 1 in
        case GetState stub loanAppID of
          Inl err \<Rightarrow> (stub, Inl err)
        | Inr laBytes \<Rightarrow>
            let (uerr, loanApplication) = Unmarshal c laBytes zero_LoanApplication;
                loanApplication = loanApplication\<lparr>Status := status\<rparr>
            in
            (case Marshal c loanApplication of
               Inl err \<Rightarrow> (stub, Inl err)
             | Inr laBytes' \<Rightarrow>
                 (case PutState stub loanAppID laBytes' of
                    Inl err \<Rightarrow> (stub, Inl err)
                  | Inr stub1 \<Rightarrow>
                      (case SetEvent stub1 ''evtSender'' (updateNotice loanAppID) of
                         Inl err \<Rightarrow> (stub1, Inl err)
                       | Inr stub2 \<Rightarrow> (stub2, Inr None)))))"

subsection \<open>The entry points\<close>

definition Init :: "ChaincodeStub \<Rightarrow> string \<Rightarrow> string list \<Rightarrow> ChaincodeStub \<times> result" where
  "Init stub function args = (stub, Inr None)"

definition Query :: "ChaincodeStub \<Rightarrow> string \<Rightarrow> string list \<Rightarrow> ChaincodeStub \<times> result" where
  "Query stub function args =
     (if function = ''GetLoanApplication'' then GetLoanApplication stub args
      else (stub, Inr None))"

text \<open>
  \<open>Invoke\<close>. The rejection is built with \<open>errors.Name\<close>, which package \<open>errors\<close> does not
  have; it is read as \<open>errors.New\<close>, the constructor used everywhere else. The body ends
  after the \<open>if\<close> with no \<open>return\<close>: for any other function name no handler runs and
  no result is produced, which is the result \<open>None\<close> here.
\<close>

definition Invoke ::
    "ChaincodeStub \<Rightarrow> string \<Rightarrow> string list \<Rightarrow> ChaincodeStub \<times> result option" where
  "Invoke stub function args =
     (if function = ''CreateLoanApplication'' then
        let username = fst (GetCertAttribute stub ''username'');
            role = fst (GetCertAttribute stub ''role'')
        in
        if role = ''Bank_Home_Loan_Admin''
        then (case CreateLoanApplication stub args of (stub', r) \<Rightarrow> (stub', Some r))
        else (stub, Some (Inl (errors_New
                (username @ '' with role '' @ role @ '' does not have correct permissions''))))
      else (stub, None))"

subsection \<open>Vocabulary of the statements\<close>

text \<open>
  \<open>occurs_in t s\<close>: the text \<open>t\<close> occurs somewhere in \<open>s\<close>. It is used to say which
  field names a notice holds.
\<close>

fun starts_with :: "string \<Rightarrow> string \<Rightarrow> bool" where
  "starts_with [] s = True"
| "starts_with (a # t) [] = False"
| "starts_with (a # t) (b # s) = (a = b \<and> starts_with t s)"

fun occurs_in :: "string \<Rightarrow> string \<Rightarrow> bool" where
  "occurs_in t [] = (t = [])"
| "occurs_in t (b # s) = (starts_with t (b # s) \<or> occurs_in t s)"

text \<open>
  \<open>same_but_Status w v\<close>: the records \<open>w\<close> and \<open>v\<close> agree on every field other than
  \<open>Status\<close>. \<open>reads_back c v\<close>: the codec \<open>c\<close> decodes what it encodes for \<open>v\<close> back to \<open>v\<close>.
\<close>

definition same_but_Status :: "LoanApplication \<Rightarrow> LoanApplication \<Rightarrow> bool" where
  "same_but_Status w v =
     (ID w = ID v \<and> PropertyID w = PropertyID v \<and> LandID w = LandID v
      \<and> PermitID w = PermitID v \<and> BuyerID w = BuyerID v
      \<and> SalesContractID w = SalesContractID v
      \<and> PersonalInfo w = PersonalInfo v \<and> FinancialInfo w = FinancialInfo v
      \<and> RequestedAmount w = RequestedAmount v \<and> FairMarketValue w = FairMarketValue v
      \<and> ApprovedAmount w = ApprovedAmount v \<and> ReviewerID w = ReviewerID v
      \<and> LastModifiedDate w = LastModifiedDate v)"

definition reads_back :: "json \<Rightarrow> LoanApplication \<Rightarrow> bool" where
  "reads_back c v =
     (case Marshal c v of
        Inl err \<Rightarrow> True
      | Inr b \<Rightarrow> Unmarshal c b zero_LoanApplication = (None, v))"

subsection \<open>Concrete stubs and a concrete codec\<close>

text \<open>
  The inputs on which the statements below are run. \<open>admin_stub\<close> is an empty ledger
  called by a \<open>Bank_Home_Loan_Admin\<close>, \<open>officer_stub\<close> the same ledger called by a
  \<open>Loan_Officer\<close>, \<open>anonymous_stub\<close> by a caller without attributes. No write and no
  event is refused in them.
\<close>

definition admin_stub :: ChaincodeStub where
  "admin_stub =
     \<lparr>ledger = Map.empty,
      attrs = [''username'' \<mapsto> ''alice'', ''role'' \<mapsto> ''Bank_Home_Loan_Admin''],
      events = [], put_fails = (\<lambda>key v. False), event_fails = (\<lambda>channel payload. False)\<rparr>"

definition officer_stub :: ChaincodeStub where
  "officer_stub =
     \<lparr>ledger = Map.empty,
      attrs = [''username'' \<mapsto> ''bob'', ''role'' \<mapsto> ''Loan_Officer''],
      events = [], put_fails = (\<lambda>key v. False), event_fails = (\<lambda>channel payload. False)\<rparr>"

definition anonymous_stub :: ChaincodeStub where
  "anonymous_stub =
     \<lparr>ledger = Map.empty, attrs = Map.empty,
      events = [], put_fails = (\<lambda>key v. False), event_fails = (\<lambda>channel payload. False)\<rparr>"

text \<open>The record of the specification's scenario, as the caller sends it.\<close>

definition LA1_input :: bytes where
  \<open>LA1_input = ''{"id":"LA1","status":"Submitted"}''\<close>

definition LA1 :: LoanApplication where
  "LA1 = zero_LoanApplication\<lparr>ID := ''LA1'', Status := ''Submitted''\<rparr>"

text \<open>
  The encoding \<open>json.Marshal\<close> gives a \<open>LoanApplication\<close>: the fields in the order of
  the declaration under the names of their tags, integers in decimal. Strings are put
  between quotation marks as they are, which is the encoding of every string free of
  the characters JSON escapes.
\<close>

fun digits :: "nat \<Rightarrow> string" where
  "digits n =
     (if n < 10 then [''0123456789'' ! n]
      else digits (n div 10) @ [''0123456789'' ! (n mod 10)])"

declare digits.simps [simp del]

definition Itoa :: "int \<Rightarrow> string" where
  "Itoa i = (if i < 0 then CHR ''-'' # digits (nat (- i)) else digits (nat i))"

definition quoted :: "string \<Rightarrow> string" where
  "quoted s = [CHR 0x22] @ s @ [CHR 0x22]"

definition member_text :: "string \<Rightarrow> string \<Rightarrow> string" where
  "member_text name v = quoted name @ '':'' @ v"

definition encode_PersonalInfo :: "PersonalInfo \<Rightarrow> string" where
  "encode_PersonalInfo p =
     ''{'' @ member_text ''firstname'' (quoted (Firstname p))
     @ '','' @ member_text ''lastname'' (quoted (Lastname p))
     @ '','' @ member_text ''DOB'' (quoted (DOB p))
     @ '','' @ member_text ''email'' (quoted (Email p))
     @ '','' @ member_text ''mobile'' (quoted (Mobile p)) @ ''}''"

definition encode_FinancialInfo :: "FinancialInfo \<Rightarrow> string" where
  "encode_FinancialInfo f =
     ''{'' @ member_text ''monthlySalary'' (Itoa (MonthlySalary f))
     @ '','' @ member_text ''monthlyRent'' (Itoa (MonthlyRent f))
     @ '','' @ member_text ''otherExpenditure'' (Itoa (OtherExpenditure f))
     @ '','' @ member_text ''monthlyLoanPayment'' (Itoa (MonthlyLoanPayment f)) @ ''}''"

definition encode_LoanApplication :: "LoanApplication \<Rightarrow> bytes" where
  "encode_LoanApplication v =
     ''{'' @ member_text ''id'' (quoted (ID v))
     @ '','' @ member_text ''PropertyID'' (quoted (PropertyID v))
     @ '','' @ member_text ''LandID'' (quoted (LandID v))
     @ '','' @ member_text ''PermitID'' (quoted (PermitID v))
     @ '','' @ member_text ''BuyerID'' (quoted (BuyerID v))
     @ '','' @ member_text ''SalesContractID'' (quoted (SalesContractID v))
     @ '','' @ member_text ''personalInfo'' (encode_PersonalInfo (PersonalInfo v))
     @ '','' @ member_text ''financialInfo'' (encode_FinancialInfo (FinancialInfo v))
     @ '','' @ member_text ''status'' (quoted (Status v))
     @ '','' @ member_text ''requestedAmount'' (Itoa (RequestedAmount v))
     @ '','' @ member_text ''fairMarketValue'' (Itoa (FairMarketValue v))
     @ '','' @ member_text ''approvedAmount'' (Itoa (ApprovedAmount v))
     @ '','' @ member_text ''ReviewerID'' (quoted (ReviewerID v))
     @ '','' @ member_text ''lastModifiedDate'' (quoted (LastModifiedDate v)) @ ''}''"

text \<open>
  \<open>json_fragment\<close> is the codec on the byte strings of the scenarios: it decodes
  \<open>LA1_input\<close> (an object with the members \<open>id\<close> and \<open>status\<close>, which sets these two
  fields and leaves the others) and the full encoding of \<open>LA1\<close> once approved, and
  reports every other input as malformed, leaving the record untouched, as
  \<open>json.Unmarshal\<close> does with text that is not JSON. The theorems hold for every
  codec; this one only runs them.
\<close>

definition json_fragment :: json where
  "json_fragment =
     \<lparr>Unmarshal = (\<lambda>data v.
        if data = LA1_input then (None, v\<lparr>ID := ''LA1'', Status := ''Submitted''\<rparr>)
        else if data = encode_LoanApplication (LA1\<lparr>Status := ''Approved''\<rparr>)
        then (None, LA1\<lparr>Status := ''Approved''\<rparr>)
        else (Some MalformedRecord, v)),
      Marshal = (\<lambda>v. Inr (encode_LoanApplication v))\<rparr>"

text \<open>A ledger that holds \<open>LA1_input\<close> under \<open>LA1\<close>, and one that holds text that is not JSON.\<close>

definition LA1_stub :: ChaincodeStub where
  "LA1_stub = admin_stub\<lparr>ledger := [''LA1'' \<mapsto> LA1_input]\<rparr>"

definition garbled_stub :: ChaincodeStub where
  "garbled_stub = admin_stub\<lparr>ledger := [''LA1'' \<mapsto> ''not json'']\<rparr>"

text \<open>The ledger of \<open>admin_stub\<close> on a host that refuses every event.\<close>

definition mute_stub :: ChaincodeStub where
  "mute_stub = admin_stub\<lparr>event_fails := (\<lambda>channel payload. True)\<rparr>"

section \<open>Properties\<close>

subsection \<open>What a successful call leaves behind\<close>

lemma GetCertAttribute_value:
  "fst (GetCertAttribute stub name) = (case attrs stub name of None \<Rightarrow> [] | Some v \<Rightarrow> v)"
  by (simp add: GetCertAttribute_def ReadCertAttribute_def split: option.splits)

lemma CreateLoanApplication_success:
  assumes "CreateLoanApplication stub (key # record # rest) = (stub', Inr out)"
  shows "stub' = stub\<lparr>ledger := (ledger stub)(key \<mapsto> record),
                      events := events stub @ [(''evtSender'', creationNotice key)]\<rparr>"
    and "out = None"
  using assms
  by (auto simp: CreateLoanApplication_def PutState_def SetEvent_def split: if_splits)

lemma Invoke_Create_success:
  assumes "Invoke stub ''CreateLoanApplication'' args = (stub', Some (Inr out))"
  shows "CreateLoanApplication stub args = (stub', Inr out)"
    and "attrs stub ''role'' = Some ''Bank_Home_Loan_Admin''"
  using assms
  by (auto simp: Invoke_def Let_def GetCertAttribute_value split: if_splits prod.splits option.splits)

lemma UpdateLoanApplication_success:
  assumes "UpdateLoanApplication c stub (key # status # rest) = (stub', Inr out)"
  obtains old new where "ledger stub key = Some old"
    and "Marshal c ((snd (Unmarshal c old zero_LoanApplication))\<lparr>Status := status\<rparr>) = Inr new"
    and "stub' = stub\<lparr>ledger := (ledger stub)(key \<mapsto> new),
                       events := events stub @ [(''evtSender'', updateNotice key)]\<rparr>"
    and "out = None"
  using assms
  by (auto simp: UpdateLoanApplication_def GetState_def PutState_def SetEvent_def Let_def
           split: if_splits option.splits sum.splits prod.splits)

lemma UpdateLoanApplication_decode_error_ignored:
  assumes "ledger stub key = Some old"
    and "Unmarshal c old zero_LoanApplication = (Some e, v)"
    and "Marshal c (v\<lparr>Status := status\<rparr>) = Inr new"
    and "\<not> put_fails stub key new"
    and "\<not> event_fails stub ''evtSender'' (updateNotice key)"
  shows "UpdateLoanApplication c stub (key # status # rest) =
           (stub\<lparr>ledger := (ledger stub)(key \<mapsto> new),
                 events := events stub @ [(''evtSender'', updateNotice key)]\<rparr>, Inr None)"
  using assms
  by (simp add: UpdateLoanApplication_def GetState_def PutState_def SetEvent_def)

lemma entry_points_never_update:
  "Invoke stub ''UpdateLoanApplication'' args = (stub, None)"
  "Query stub ''UpdateLoanApplication'' args = (stub, Inr None)"
  "Init stub ''UpdateLoanApplication'' args = (stub, Inr None)"
  by (simp_all add: Invoke_def Query_def Init_def)

subsection \<open>Read\<close>

text \<open>
  C1. Reading a key under which the ledger holds nothing fails with \<open>NotFound\<close>, called
  directly or through \<open>Query\<close>: the result is the error, never a success with an empty
  or absent value. The stub is left as it was.
\<close>

theorem Read_missing_NotFound:
  assumes "ledger stub key = None"
  shows "GetLoanApplication stub [key] = (stub, Inl NotFound)
       \<and> Query stub ''GetLoanApplication'' [key] = (stub, Inl NotFound)"
  using assms by (simp add: GetLoanApplication_def Query_def GetState_def)

theorem Read_missing_NotFound_witness:
  "ledger admin_stub ''LA1'' = None
   \<and> GetLoanApplication admin_stub [''LA1''] = (admin_stub, Inl NotFound)
   \<and> Query admin_stub ''GetLoanApplication'' [''LA1''] = (admin_stub, Inl NotFound)"
proof -
  have h: "ledger admin_stub ''LA1'' = None"
    by (simp add: admin_stub_def)
  from Read_missing_NotFound [OF h] h show ?thesis by simp
qed

text \<open>
  C10. For every function name other than \<open>GetLoanApplication\<close> and every argument
  list, \<open>Query\<close> returns \<open>nil, nil\<close> and leaves the stub as it was; it reports no
  unknown-function error.
\<close>

theorem Query_unknown_function:
  assumes "function \<noteq> ''GetLoanApplication''"
  shows "Query stub function args = (stub, Inr None)"
  using assms by (simp add: Query_def)

theorem Query_unknown_function_witness:
  "''DeleteLoanApplication'' \<noteq> ''GetLoanApplication''
   \<and> Query LA1_stub ''DeleteLoanApplication'' [''LA1''] = (LA1_stub, Inr None)"
proof -
  have h: "''DeleteLoanApplication'' \<noteq> ''GetLoanApplication''" by simp
  from Query_unknown_function [OF h] h show ?thesis by simp
qed

subsection \<open>Create\<close>

text \<open>
  C4. When \<open>Invoke\<close> of \<open>CreateLoanApplication\<close> with the arguments \<open>key\<close> and \<open>record\<close>
  succeeds (which it only does for an authorized caller), a following read of \<open>key\<close>,
  through \<open>Query\<close> or directly, returns exactly the bytes \<open>record\<close>.
\<close>

theorem Create_then_Read_roundtrip:
  assumes "Invoke stub ''CreateLoanApplication'' (key # record # rest) = (stub', Some (Inr out))"
  shows "Query stub' ''GetLoanApplication'' [key] = (stub', Inr (Some record))
       \<and> GetLoanApplication stub' [key] = (stub', Inr (Some record))"
proof -
  from assms have "CreateLoanApplication stub (key # record # rest) = (stub', Inr out)"
    by (rule Invoke_Create_success)
  then have "stub' = stub\<lparr>ledger := (ledger stub)(key \<mapsto> record),
                             events := events stub @ [(''evtSender'', creationNotice key)]\<rparr>"
    by (rule CreateLoanApplication_success)
  then have "ledger stub' key = Some record"
    by simp
  then show ?thesis
    by (simp add: Query_def GetLoanApplication_def GetState_def)
qed

theorem Create_then_Read_roundtrip_witness:
  "Invoke admin_stub ''CreateLoanApplication'' [''LA1'', LA1_input]
     = (admin_stub\<lparr>ledger := [''LA1'' \<mapsto> LA1_input],
                    events := [(''evtSender'', creationNotice ''LA1'')]\<rparr>, Some (Inr None))
   \<and> Query (admin_stub\<lparr>ledger := [''LA1'' \<mapsto> LA1_input],
                        events := [(''evtSender'', creationNotice ''LA1'')]\<rparr>)
        ''GetLoanApplication'' [''LA1'']
     = (admin_stub\<lparr>ledger := [''LA1'' \<mapsto> LA1_input],
                    events := [(''evtSender'', creationNotice ''LA1'')]\<rparr>, Inr (Some LA1_input))"
proof -
  have h: "Invoke admin_stub ''CreateLoanApplication'' [''LA1'', LA1_input]
     = (admin_stub\<lparr>ledger := [''LA1'' \<mapsto> LA1_input],
                    events := [(''evtSender'', creationNotice ''LA1'')]\<rparr>, Some (Inr None))"
    by (simp add: Invoke_def Let_def GetCertAttribute_value CreateLoanApplication_def
        PutState_def SetEvent_def admin_stub_def)
  from Create_then_Read_roundtrip [OF h] h show ?thesis by simp
qed

text \<open>
  A create with fewer than two arguments fails with the argument error and leaves the
  stub as it was, called directly or through \<open>Invoke\<close> by an authorized caller.
\<close>

theorem Create_too_few_arguments:
  assumes "length args < 2"
  shows "CreateLoanApplication stub args
           = (stub, Inl (errors_New ''Expected at least 2 arguments''))
       \<and> (attrs stub ''role'' = Some ''Bank_Home_Loan_Admin'' \<longrightarrow>
            Invoke stub ''CreateLoanApplication'' args
              = (stub, Some (Inl (errors_New ''Expected at least 2 arguments''))))"
  using assms
  by (simp add: CreateLoanApplication_def Invoke_def Let_def GetCertAttribute_value)

theorem Create_too_few_arguments_witness:
  "length [''LA1''] < 2
   \<and> attrs admin_stub ''role'' = Some ''Bank_Home_Loan_Admin''
   \<and> CreateLoanApplication admin_stub [''LA1'']
       = (admin_stub, Inl (errors_New ''Expected at least 2 arguments''))
   \<and> Invoke admin_stub ''CreateLoanApplication'' [''LA1'']
       = (admin_stub, Some (Inl (errors_New ''Expected at least 2 arguments'')))"
proof -
  have h: "length [''LA1''] < 2" by simp
  have r: "attrs admin_stub ''role'' = Some ''Bank_Home_Loan_Admin''"
    by (simp add: admin_stub_def)
  from Create_too_few_arguments [OF h, of admin_stub] h r show ?thesis by simp
qed

text \<open>
  C6. When the caller's \<open>role\<close> attribute is not \<open>Bank_Home_Loan_Admin\<close> (another value,
  or no readable attribute at all), \<open>Invoke\<close> of \<open>CreateLoanApplication\<close> fails for every
  argument list with the permission error whose message is the caller's username,
  \<open>with role\<close>, the caller's role and \<open>does not have correct permissions\<close> (an
  attribute that cannot be read counts as the empty text), and the stub is left as it
  was: nothing is written.
\<close>

theorem Create_denied_without_admin_role:
  assumes "attrs stub ''role'' \<noteq> Some ''Bank_Home_Loan_Admin''"
  shows "Invoke stub ''CreateLoanApplication'' args =
           (stub, Some (Inl (errors_New
              ((case attrs stub ''username'' of None \<Rightarrow> [] | Some u \<Rightarrow> u)
               @ '' with role ''
               @ (case attrs stub ''role'' of None \<Rightarrow> [] | Some r \<Rightarrow> r)
               @ '' does not have correct permissions''))))"
  using assms
  by (simp add: Invoke_def Let_def GetCertAttribute_value split: option.splits)

theorem Create_denied_without_admin_role_witness:
  "attrs officer_stub ''role'' \<noteq> Some ''Bank_Home_Loan_Admin''
   \<and> Invoke officer_stub ''CreateLoanApplication'' [''LA1'', LA1_input]
       = (officer_stub,
          Some (Inl (errors_New ''bob with role Loan_Officer does not have correct permissions'')))
   \<and> attrs anonymous_stub ''role'' \<noteq> Some ''Bank_Home_Loan_Admin''
   \<and> Invoke anonymous_stub ''CreateLoanApplication'' [''LA1'', LA1_input]
       = (anonymous_stub,
          Some (Inl (errors_New '' with role  does not have correct permissions'')))"
proof -
  have h1: "attrs officer_stub ''role'' \<noteq> Some ''Bank_Home_Loan_Admin''"
    by (simp add: officer_stub_def)
  have h2: "attrs anonymous_stub ''role'' \<noteq> Some ''Bank_Home_Loan_Admin''"
    by (simp add: anonymous_stub_def)
  have a1: "attrs officer_stub ''username'' = Some ''bob''"
    and a2: "attrs officer_stub ''role'' = Some ''Loan_Officer''"
    and a3: "attrs anonymous_stub ''username'' = None"
    and a4: "attrs anonymous_stub ''role'' = None"
    by (simp_all add: officer_stub_def anonymous_stub_def)
  from Create_denied_without_admin_role [OF h1, of "[''LA1'', LA1_input]"]
    Create_denied_without_admin_role [OF h2, of "[''LA1'', LA1_input]"]
    h1 h2 show ?thesis
    by (simp add: a1 a2 a3 a4)
qed

text \<open>
  C8. When the write of a create succeeds and the emission of its notice fails, the
  call returns the emission's error, and the stub it leaves behind is the one after the
  write: the record is stored under its key, nothing undoes it. The same holds for the
  call through \<open>Invoke\<close> by an authorized caller.
\<close>

theorem Create_keeps_record_when_event_fails:
  assumes "PutState stub key record = Inr stub1"
    and "SetEvent stub1 ''evtSender'' (creationNotice key) = Inl err"
  shows "CreateLoanApplication stub (key # record # rest) = (stub1, Inl err)
       \<and> ledger stub1 key = Some record
       \<and> GetLoanApplication stub1 [key] = (stub1, Inr (Some record))
       \<and> (attrs stub ''role'' = Some ''Bank_Home_Loan_Admin'' \<longrightarrow>
            Invoke stub ''CreateLoanApplication'' (key # record # rest) = (stub1, Some (Inl err)))"
proof -
  have c: "CreateLoanApplication stub (key # record # rest) = (stub1, Inl err)"
    using assms by (simp add: CreateLoanApplication_def)
  have l: "ledger stub1 key = Some record"
    using assms(1) by (auto simp: PutState_def split: if_splits)
  have g: "GetLoanApplication stub1 [key] = (stub1, Inr (Some record))"
    using l by (simp add: GetLoanApplication_def GetState_def)
  have i: "Invoke stub ''CreateLoanApplication'' (key # record # rest) = (stub1, Some (Inl err))"
    if "attrs stub ''role'' = Some ''Bank_Home_Loan_Admin''"
    using that c by (simp add: Invoke_def Let_def GetCertAttribute_value)
  from c l g i show ?thesis by blast
qed

theorem Create_keeps_record_when_event_fails_witness:
  "PutState mute_stub ''LA1'' LA1_input = Inr (mute_stub\<lparr>ledger := [''LA1'' \<mapsto> LA1_input]\<rparr>)
   \<and> SetEvent (mute_stub\<lparr>ledger := [''LA1'' \<mapsto> LA1_input]\<rparr>) ''evtSender''
        (creationNotice ''LA1'') = Inl WriteFailed
   \<and> attrs mute_stub ''role'' = Some ''Bank_Home_Loan_Admin''
   \<and> Invoke mute_stub ''CreateLoanApplication'' [''LA1'', LA1_input]
       = (mute_stub\<lparr>ledger := [''LA1'' \<mapsto> LA1_input]\<rparr>, Some (Inl WriteFailed))
   \<and> ledger (mute_stub\<lparr>ledger := [''LA1'' \<mapsto> LA1_input]\<rparr>) ''LA1'' = Some LA1_input"
proof -
  have p: "PutState mute_stub ''LA1'' LA1_input
             = Inr (mute_stub\<lparr>ledger := [''LA1'' \<mapsto> LA1_input]\<rparr>)"
    by (simp add: PutState_def mute_stub_def admin_stub_def)
  have e: "SetEvent (mute_stub\<lparr>ledger := [''LA1'' \<mapsto> LA1_input]\<rparr>) ''evtSender''
             (creationNotice ''LA1'') = Inl WriteFailed"
    by (simp add: SetEvent_def mute_stub_def admin_stub_def)
  have r: "attrs mute_stub ''role'' = Some ''Bank_Home_Loan_Admin''"
    by (simp add: mute_stub_def admin_stub_def)
  from Create_keeps_record_when_event_fails [OF p e, of "[]"] p e r show ?thesis
    by simp
qed

subsection \<open>Update\<close>

text \<open>
  C2. Updating a key under which the ledger holds nothing fails with the read error
  \<open>NotFound\<close> for every status and every codec, and the stub is left as it was: no
  write, no event.
\<close>

theorem Update_missing_no_write:
  assumes "ledger stub key = None"
  shows "UpdateLoanApplication c stub (key # status # rest) = (stub, Inl NotFound)"
  using assms by (simp add: UpdateLoanApplication_def GetState_def)

theorem Update_missing_no_write_witness:
  "ledger admin_stub ''LA1'' = None
   \<and> UpdateLoanApplication json_fragment admin_stub [''LA1'', ''Approved'']
       = (admin_stub, Inl NotFound)"
proof -
  have h: "ledger admin_stub ''LA1'' = None"
    by (simp add: admin_stub_def)
  from Update_missing_no_write [OF h, of json_fragment "''Approved''" "[]"] h
  show ?thesis by simp
qed

text \<open>
  C3 asks that an update of bytes that do not decode fails with the decoding error and
  writes nothing. The source drops the error of \<open>json.Unmarshal\<close>: on the ledger that
  holds \<open>not json\<close> under \<open>LA1\<close>, decoding fails, and the update still succeeds, replaces
  the stored bytes by the encoding of the empty record with the new status, and emits
  its notice.
\<close>

theorem Update_stores_after_failed_decode:
  \<open>Unmarshal json_fragment ''not json'' zero_LoanApplication
     = (Some MalformedRecord, zero_LoanApplication)
   \<and> UpdateLoanApplication json_fragment garbled_stub [''LA1'', ''Approved'']
     = (garbled_stub
          \<lparr>ledger := [''LA1'' \<mapsto> ''{"id":"","PropertyID":"","LandID":"","PermitID":"","BuyerID":"","SalesContractID":"","personalInfo":{"firstname":"","lastname":"","DOB":"","email":"","mobile":""},"financialInfo":{"monthlySalary":0,"monthlyRent":0,"otherExpenditure":0,"monthlyLoanPayment":0},"status":"Approved","requestedAmount":0,"fairMarketValue":0,"approvedAmount":0,"ReviewerID":"","lastModifiedDate":""}''],
           events := [(''evtSender'', updateNotice ''LA1'')]\<rparr>,
        Inr None)\<close>
proof -
  have u: "Unmarshal json_fragment ''not json'' zero_LoanApplication
             = (Some MalformedRecord, zero_LoanApplication)"
    by (simp add: json_fragment_def LA1_input_def encode_LoanApplication_def member_text_def
        quoted_def)
  have m: \<open>Marshal json_fragment (zero_LoanApplication\<lparr>Status := ''Approved''\<rparr>)
             = Inr ''{"id":"","PropertyID":"","LandID":"","PermitID":"","BuyerID":"","SalesContractID":"","personalInfo":{"firstname":"","lastname":"","DOB":"","email":"","mobile":""},"financialInfo":{"monthlySalary":0,"monthlyRent":0,"otherExpenditure":0,"monthlyLoanPayment":0},"status":"Approved","requestedAmount":0,"fairMarketValue":0,"approvedAmount":0,"ReviewerID":"","lastModifiedDate":""}''\<close>
    by (simp add: json_fragment_def encode_LoanApplication_def encode_PersonalInfo_def
        encode_FinancialInfo_def member_text_def quoted_def Itoa_def digits.simps
        zero_LoanApplication_def)
  have l: "ledger garbled_stub ''LA1'' = Some ''not json''"
    by (simp add: garbled_stub_def)
  have f: "\<not> put_fails garbled_stub k b" "\<not> event_fails garbled_stub ch b" for k b ch
    by (simp_all add: garbled_stub_def admin_stub_def)
  have e: "events garbled_stub = []" "ledger garbled_stub = [''LA1'' \<mapsto> ''not json'']"
    by (simp_all add: garbled_stub_def admin_stub_def)
  from u UpdateLoanApplication_decode_error_ignored [OF l u m f, of "[]"]
  show ?thesis by (simp add: e)
qed

text \<open>
  C5. Let the ledger hold under \<open>key\<close> bytes that decode, without error, to the record
  \<open>v\<close>. A successful update with \<open>status\<close> replaces the bytes under \<open>key\<close> by the encoding
  of \<open>v\<close> with \<open>Status\<close> set to \<open>status\<close>, and no other key changes. So whenever the
  codec reads back what it has written for that record, the stored record afterwards is
  \<open>v\<close> in every field but \<open>Status\<close>.
\<close>

theorem Update_changes_only_Status:
  assumes "ledger stub key = Some old"
    and "Unmarshal c old zero_LoanApplication = (None, v)"
    and "UpdateLoanApplication c stub (key # status # rest) = (stub', Inr out)"
  shows "\<exists>new. Marshal c (v\<lparr>Status := status\<rparr>) = Inr new
           \<and> ledger stub' = (ledger stub)(key \<mapsto> new)
           \<and> (reads_back c (v\<lparr>Status := status\<rparr>) \<longrightarrow>
                (\<exists>w. Unmarshal c new zero_LoanApplication = (None, w)
                     \<and> Status w = status \<and> same_but_Status w v))"
proof -
  from assms(3) obtain old' new where o: "ledger stub key = Some old'"
    and m: "Marshal c ((snd (Unmarshal c old' zero_LoanApplication))\<lparr>Status := status\<rparr>) = Inr new"
    and s: "stub' = stub\<lparr>ledger := (ledger stub)(key \<mapsto> new),
                         events := events stub @ [(''evtSender'', updateNotice key)]\<rparr>"
    by (rule UpdateLoanApplication_success)
  from o assms(1) have "old' = old" by simp
  with m assms(2) have m': "Marshal c (v\<lparr>Status := status\<rparr>) = Inr new" by simp
  from s have l: "ledger stub' = (ledger stub)(key \<mapsto> new)" by simp
  have r: "\<exists>w. Unmarshal c new zero_LoanApplication = (None, w)
              \<and> Status w = status \<and> same_but_Status w v"
    if "reads_back c (v\<lparr>Status := status\<rparr>)"
  proof -
    from that m' have "Unmarshal c new zero_LoanApplication = (None, v\<lparr>Status := status\<rparr>)"
      by (simp add: reads_back_def)
    then show ?thesis by (simp add: same_but_Status_def)
  qed
  from m' l r show ?thesis by blast
qed

lemma encode_LA1_Approved:
  \<open>encode_LoanApplication (LA1\<lparr>Status := ''Approved''\<rparr>)
     = ''{"id":"LA1","PropertyID":"","LandID":"","PermitID":"","BuyerID":"","SalesContractID":"","personalInfo":{"firstname":"","lastname":"","DOB":"","email":"","mobile":""},"financialInfo":{"monthlySalary":0,"monthlyRent":0,"otherExpenditure":0,"monthlyLoanPayment":0},"status":"Approved","requestedAmount":0,"fairMarketValue":0,"approvedAmount":0,"ReviewerID":"","lastModifiedDate":""}''\<close>
  by (simp add: encode_LoanApplication_def encode_PersonalInfo_def encode_FinancialInfo_def
      member_text_def quoted_def Itoa_def digits.simps LA1_def zero_LoanApplication_def)

lemma json_fragment_LA1:
  "Unmarshal json_fragment LA1_input zero_LoanApplication = (None, LA1)"
  "Marshal json_fragment (LA1\<lparr>Status := ''Approved''\<rparr>)
     = Inr (encode_LoanApplication (LA1\<lparr>Status := ''Approved''\<rparr>))"
  "Unmarshal json_fragment (encode_LoanApplication (LA1\<lparr>Status := ''Approved''\<rparr>))
     zero_LoanApplication = (None, LA1\<lparr>Status := ''Approved''\<rparr>)"
proof -
  have ne: "encode_LoanApplication (LA1\<lparr>Status := ''Approved''\<rparr>) \<noteq> LA1_input"
    by (simp add: encode_LA1_Approved LA1_input_def)
  show "Unmarshal json_fragment LA1_input zero_LoanApplication = (None, LA1)"
    by (simp add: json_fragment_def LA1_def)
  show "Marshal json_fragment (LA1\<lparr>Status := ''Approved''\<rparr>)
     = Inr (encode_LoanApplication (LA1\<lparr>Status := ''Approved''\<rparr>))"
    by (simp add: json_fragment_def)
  show "Unmarshal json_fragment (encode_LoanApplication (LA1\<lparr>Status := ''Approved''\<rparr>))
     zero_LoanApplication = (None, LA1\<lparr>Status := ''Approved''\<rparr>)"
    using ne by (simp add: json_fragment_def)
qed

lemma LA1_stub_Update:
  "UpdateLoanApplication json_fragment LA1_stub [''LA1'', ''Approved'']
     = (LA1_stub\<lparr>ledger := [''LA1'' \<mapsto> encode_LoanApplication (LA1\<lparr>Status := ''Approved''\<rparr>)],
                  events := [(''evtSender'', updateNotice ''LA1'')]\<rparr>, Inr None)"
  by (simp add: UpdateLoanApplication_def Let_def GetState_def PutState_def SetEvent_def
      json_fragment_LA1 LA1_stub_def admin_stub_def)

theorem Update_changes_only_Status_witness:
  "ledger LA1_stub ''LA1'' = Some LA1_input
   \<and> Unmarshal json_fragment LA1_input zero_LoanApplication = (None, LA1)
   \<and> UpdateLoanApplication json_fragment LA1_stub [''LA1'', ''Approved'']
       = (LA1_stub\<lparr>ledger := [''LA1'' \<mapsto> encode_LoanApplication (LA1\<lparr>Status := ''Approved''\<rparr>)],
                    events := [(''evtSender'', updateNotice ''LA1'')]\<rparr>, Inr None)
   \<and> reads_back json_fragment (LA1\<lparr>Status := ''Approved''\<rparr>)
   \<and> (\<exists>new w. ledger (LA1_stub\<lparr>ledger := [''LA1'' \<mapsto> encode_LoanApplication (LA1\<lparr>Status := ''Approved''\<rparr>)],
                    events := [(''evtSender'', updateNotice ''LA1'')]\<rparr>)
                 = (ledger LA1_stub)(''LA1'' \<mapsto> new)
        \<and> Unmarshal json_fragment new zero_LoanApplication = (None, w)
        \<and> Status w = ''Approved'' \<and> same_but_Status w LA1)"
proof -
  have l: "ledger LA1_stub ''LA1'' = Some LA1_input"
    by (simp add: LA1_stub_def)
  have b: "reads_back json_fragment (LA1\<lparr>Status := ''Approved''\<rparr>)"
    by (simp add: reads_back_def json_fragment_LA1)
  from Update_changes_only_Status [OF l json_fragment_LA1(1) LA1_stub_Update] b
  have "\<exists>new w. ledger (LA1_stub\<lparr>ledger := [''LA1'' \<mapsto> encode_LoanApplication (LA1\<lparr>Status := ''Approved''\<rparr>)],
                    events := [(''evtSender'', updateNotice ''LA1'')]\<rparr>)
                 = (ledger LA1_stub)(''LA1'' \<mapsto> new)
        \<and> Unmarshal json_fragment new zero_LoanApplication = (None, w)
        \<and> Status w = ''Approved'' \<and> same_but_Status w LA1"
    by blast
  with l json_fragment_LA1(1) LA1_stub_Update b show ?thesis by blast
qed

subsection \<open>Dispatch\<close>

text \<open>
  C7 asks that an invocation named \<open>UpdateLoanApplication\<close> with the arguments
  \<open>LA1\<close> and \<open>Approved\<close> reaches the update. No entry point calls
  \<open>UpdateLoanApplication\<close>: on the ledger that holds \<open>LA1\<close>, \<open>Invoke\<close> runs no handler and
  produces no result, \<open>Query\<close> and \<open>Init\<close> return \<open>nil, nil\<close>, and all three leave the
  stub as it was, whereas the update itself would have replaced the stored bytes.
\<close>

theorem Update_not_dispatched:
  "Invoke LA1_stub ''UpdateLoanApplication'' [''LA1'', ''Approved''] = (LA1_stub, None)
   \<and> Query LA1_stub ''UpdateLoanApplication'' [''LA1'', ''Approved''] = (LA1_stub, Inr None)
   \<and> Init LA1_stub ''UpdateLoanApplication'' [''LA1'', ''Approved''] = (LA1_stub, Inr None)
   \<and> ledger LA1_stub ''LA1'' = Some LA1_input
   \<and> ledger (fst (UpdateLoanApplication json_fragment LA1_stub [''LA1'', ''Approved''])) ''LA1''
       = Some (encode_LoanApplication (LA1\<lparr>Status := ''Approved''\<rparr>))"
  by (simp add: entry_points_never_update LA1_stub_Update) (simp add: LA1_stub_def)

subsection \<open>Notices\<close>

text \<open>
  C9 as stated fails: the notice of a successful create is text, not a structured
  value, and its kind stands under the name \<open>eventType\<close>; the text \<open>type\<close> does not
  occur in it, so it has no field of that name.
\<close>

theorem Create_notice_has_no_type_field:
  "CreateLoanApplication admin_stub [''LA1'', LA1_input]
     = (admin_stub
          \<lparr>ledger := [''LA1'' \<mapsto> LA1_input],
           events := [(''evtSender'',
             ''{eventType: 'loanApplicationCreation', description: 'LA1 Successfully created'}'')]\<rparr>,
        Inr None)
   \<and> \<not> occurs_in ''type''
         ''{eventType: 'loanApplicationCreation', description: 'LA1 Successfully created'}''"
  by (simp add: CreateLoanApplication_def Let_def PutState_def SetEvent_def creationNotice_def
      admin_stub_def)

text \<open>
  C9, amended. A successful create (called directly or through \<open>Invoke\<close>) and a
  successful update each emit exactly one event, on the channel \<open>evtSender\<close>. Its
  payload is the text
  \<^verbatim>\<open>{eventType: 'loanApplicationCreation', description: '<id> Successfully created'}\<close>
  for a create and
  \<^verbatim>\<open>{eventType: 'loanApplicationUpdate', description: '<id> Successfully updated'}\<close>
  for an update, where \<open><id>\<close> is the first argument: the kind stands under
  \<open>eventType\<close>, and the description names the affected id.
\<close>

theorem notices_on_evtSender:
  "(CreateLoanApplication stub (key # record # rest) = (stub1, Inr out1) \<longrightarrow>
      events stub1 = events stub @ [(''evtSender'',
        ''{eventType: 'loanApplicationCreation', description: '' @ [CHR 0x27] @ key
          @ '' Successfully created'}'')])
   \<and> (Invoke stub ''CreateLoanApplication'' (key # record # rest) = (stub2, Some (Inr out2)) \<longrightarrow>
      events stub2 = events stub @ [(''evtSender'',
        ''{eventType: 'loanApplicationCreation', description: '' @ [CHR 0x27] @ key
          @ '' Successfully created'}'')])
   \<and> (UpdateLoanApplication c stub (key # status # rest) = (stub3, Inr out3) \<longrightarrow>
      events stub3 = events stub @ [(''evtSender'',
        ''{eventType: 'loanApplicationUpdate', description: '' @ [CHR 0x27] @ key
          @ '' Successfully updated'}'')])"
proof (intro conjI impI)
  assume "CreateLoanApplication stub (key # record # rest) = (stub1, Inr out1)"
  then have "stub1 = stub\<lparr>ledger := (ledger stub)(key \<mapsto> record),
                          events := events stub @ [(''evtSender'', creationNotice key)]\<rparr>"
    by (rule CreateLoanApplication_success)
  then show "events stub1 = events stub @ [(''evtSender'',
        ''{eventType: 'loanApplicationCreation', description: '' @ [CHR 0x27] @ key
          @ '' Successfully created'}'')]"
    by (simp add: creationNotice_def)
next
  assume "Invoke stub ''CreateLoanApplication'' (key # record # rest) = (stub2, Some (Inr out2))"
  then have "CreateLoanApplication stub (key # record # rest) = (stub2, Inr out2)"
    by (rule Invoke_Create_success)
  then have "stub2 = stub\<lparr>ledger := (ledger stub)(key \<mapsto> record),
                          events := events stub @ [(''evtSender'', creationNotice key)]\<rparr>"
    by (rule CreateLoanApplication_success)
  then show "events stub2 = events stub @ [(''evtSender'',
        ''{eventType: 'loanApplicationCreation', description: '' @ [CHR 0x27] @ key
          @ '' Successfully created'}'')]"
    by (simp add: creationNotice_def)
next
  assume "UpdateLoanApplication c stub (key # status # rest) = (stub3, Inr out3)"
  then obtain new where
    "stub3 = stub\<lparr>ledger := (ledger stub)(key \<mapsto> new),
                   events := events stub @ [(''evtSender'', updateNotice key)]\<rparr>"
    by (rule UpdateLoanApplication_success)
  then show "events stub3 = events stub @ [(''evtSender'',
        ''{eventType: 'loanApplicationUpdate', description: '' @ [CHR 0x27] @ key
          @ '' Successfully updated'}'')]"
    by (simp add: updateNotice_def)
qed

lemma admin_stub_Create:
  "CreateLoanApplication admin_stub [''LA1'', LA1_input]
     = (LA1_stub\<lparr>events := [(''evtSender'', creationNotice ''LA1'')]\<rparr>, Inr None)"
  by (simp add: CreateLoanApplication_def Let_def PutState_def SetEvent_def LA1_stub_def
      admin_stub_def)

lemma admin_stub_Invoke:
  "Invoke admin_stub ''CreateLoanApplication'' [''LA1'', LA1_input]
     = (LA1_stub\<lparr>events := [(''evtSender'', creationNotice ''LA1'')]\<rparr>, Some (Inr None))"
  by (simp add: Invoke_def Let_def GetCertAttribute_value admin_stub_Create)
    (simp add: admin_stub_def)

theorem notices_on_evtSender_witness:
  "CreateLoanApplication admin_stub [''LA1'', LA1_input]
     = (LA1_stub\<lparr>events := [(''evtSender'', creationNotice ''LA1'')]\<rparr>, Inr None)
   \<and> Invoke admin_stub ''CreateLoanApplication'' [''LA1'', LA1_input]
     = (LA1_stub\<lparr>events := [(''evtSender'', creationNotice ''LA1'')]\<rparr>, Some (Inr None))
   \<and> events (LA1_stub\<lparr>events := [(''evtSender'', creationNotice ''LA1'')]\<rparr>)
       = events admin_stub @ [(''evtSender'',
           ''{eventType: 'loanApplicationCreation', description: 'LA1 Successfully created'}'')]
   \<and> UpdateLoanApplication json_fragment LA1_stub [''LA1'', ''Approved'']
       = (LA1_stub\<lparr>ledger := [''LA1'' \<mapsto> encode_LoanApplication (LA1\<lparr>Status := ''Approved''\<rparr>)],
                    events := [(''evtSender'', updateNotice ''LA1'')]\<rparr>, Inr None)
   \<and> events (LA1_stub\<lparr>ledger := [''LA1'' \<mapsto> encode_LoanApplication (LA1\<lparr>Status := ''Approved''\<rparr>)],
                    events := [(''evtSender'', updateNotice ''LA1'')]\<rparr>)
       = events LA1_stub @ [(''evtSender'',
           ''{eventType: 'loanApplicationUpdate', description: 'LA1 Successfully updated'}'')]"
proof -
  note n = notices_on_evtSender [of admin_stub "''LA1''" LA1_input "[]"
      "LA1_stub\<lparr>events := [(''evtSender'', creationNotice ''LA1'')]\<rparr>" None
      "LA1_stub\<lparr>events := [(''evtSender'', creationNotice ''LA1'')]\<rparr>" None]
  note u = notices_on_evtSender [of LA1_stub "''LA1''" _ "[]" _ _ _ _ json_fragment "''Approved''"
      "LA1_stub\<lparr>ledger := [''LA1'' \<mapsto> encode_LoanApplication (LA1\<lparr>Status := ''Approved''\<rparr>)],
                 events := [(''evtSender'', updateNotice ''LA1'')]\<rparr>" None]
  from n admin_stub_Create admin_stub_Invoke
  have 1: "events (LA1_stub\<lparr>events := [(''evtSender'', creationNotice ''LA1'')]\<rparr>)
       = events admin_stub @ [(''evtSender'',
           ''{eventType: 'loanApplicationCreation', description: 'LA1 Successfully created'}'')]"
    by simp
  from u LA1_stub_Update
  have 2: "events (LA1_stub\<lparr>ledger := [''LA1'' \<mapsto> encode_LoanApplication (LA1\<lparr>Status := ''Approved''\<rparr>)],
                    events := [(''evtSender'', updateNotice ''LA1'')]\<rparr>)
       = events LA1_stub @ [(''evtSender'',
           ''{eventType: 'loanApplicationUpdate', description: 'LA1 Successfully updated'}'')]"
    by simp
  from 1 2 admin_stub_Create admin_stub_Invoke LA1_stub_Update show ?thesis
    by blast
qed

end
